theory Spec2Isabelle
  imports Complex_Main "HOL-Library.Sublist"
begin

section \<open>The Polygon feed: rate limiter and retrying request\<close>

text \<open>
  \<^verbatim>\<open>alphalens/data/polygon_feed.py\<close>. Wall-clock time (\<^verbatim>\<open>time.time()\<close>, a number of
  seconds) is an integer number of milliseconds, so the rate window of 60 seconds is
  \<open>60000\<close> and the margin of 0.1 seconds is \<open>100\<close>. The clock is a field of the
  feed's state; \<^verbatim>\<open>time.sleep\<close> and the duration of an HTTP call advance it.

  The field \<open>trace\<close> is a ghost field: it records, in order, each pass through the rate
  limiter, each HTTP call issued with \<^verbatim>\<open>session.get\<close> and each sleep, so that statements
  about the order of these effects can be written down. The code never reads it.
\<close>

datatype event = Admit | Attempt | Sleep int

record feed =
  clock :: int
  call_timestamps :: "int list"
  calls_per_minute :: nat
  trace :: "event list"

datatype py_error = ValueError | RuntimeError string

text \<open>
  What \<^verbatim>\<open>session.get(url, params=params, timeout=10)\<close> does at one attempt: it takes some
  time, and either raises (time-out, connection error) or returns a response with a status
  code and a body; \<^verbatim>\<open>response.json()\<close> returns the parsed body, or raises when the body
  is not JSON (\<open>None\<close> here).
\<close>

datatype reply = Raises nat | Http nat nat "string option"

text \<open>\<^verbatim>\<open>self.rate_limits.get(tier, 5)\<close> and the initial state of \<^verbatim>\<open>__init__\<close>.\<close>

definition rate_limits :: "string \<Rightarrow> nat" where
  "rate_limits tier =
     (if tier = ''free'' then 5
      else if tier = ''starter'' then 100
      else if tier = ''developer'' then 1000
      else if tier = ''advanced'' then 10000
      else 5)"

definition init_feed :: "string \<Rightarrow> int \<Rightarrow> feed" where
  "init_feed tier t0 =
     \<lparr>clock = t0, call_timestamps = [], calls_per_minute = rate_limits tier, trace = []\<rparr>"

definition sleep :: "int \<Rightarrow> feed \<Rightarrow> feed" where
  "sleep d s = s\<lparr>clock := clock s + d, trace := trace s @ [Sleep d]\<rparr>"

text \<open>
  \<^verbatim>\<open>_enforce_rate_limit\<close>: purge the timestamps of a minute ago and older, and when the
  window is full sleep until the oldest call leaves it. \<^verbatim>\<open>min\<close> of an empty list raises
  \<^verbatim>\<open>ValueError\<close>, which happens only when the limit is 0.
\<close>

definition enforce_rate_limit :: "feed \<Rightarrow> py_error + feed" where
  "enforce_rate_limit s =
     (let now = clock s;
          ts = filter (\<lambda>t. now - t < 60000) (call_timestamps s);
          s1 = s\<lparr>call_timestamps := ts, trace := trace s @ [Admit]\<rparr>
      in if calls_per_minute s \<le> length ts then
           (if ts = [] then Inl ValueError
            else
              (let oldest_call = min_list ts;
                   wait_time = 60000 - (now - oldest_call)
               in if 0 < wait_time then Inr (sleep (wait_time + 100) s1) else Inr s1))
         else Inr s1)"

text \<open>One \<^verbatim>\<open>session.get\<close>: the call is issued and takes \<open>d\<close> milliseconds.\<close>

definition issue :: "nat \<Rightarrow> feed \<Rightarrow> feed" where
  "issue d s = s\<lparr>clock := clock s + int d, trace := trace s @ [Attempt]\<rparr>"

text \<open>\<^verbatim>\<open>self.call_timestamps.append(time.time())\<close>\<close>

definition track_call :: "feed \<Rightarrow> feed" where
  "track_call s = s\<lparr>call_timestamps := call_timestamps s @ [clock s]\<rparr>"

text \<open>
  The loop \<^verbatim>\<open>for attempt in range(retries)\<close> of \<^verbatim>\<open>_make_request\<close>, from iteration
  \<open>attempt\<close> on. \<open>http attempt\<close> is what the server does at that attempt. The result
  is the returned JSON (\<open>None\<close> for Python's \<^verbatim>\<open>None\<close>) and the state.
\<close>

function request_loop ::
  "int \<Rightarrow> nat \<Rightarrow> (nat \<Rightarrow> reply) \<Rightarrow> feed \<Rightarrow> string option \<times> feed" where
  "request_loop retries attempt http s =
     (if retries \<le> int attempt then (None, s)
      else
        (case http attempt of
           Raises d \<Rightarrow>
             (let s1 = issue d s
              in if int attempt < retries - 1
                 then request_loop retries (Suc attempt) http (sleep (1000 * 2 ^ attempt) s1)
                 else (None, s1))
         | Http d status_code body \<Rightarrow>
             (let s2 = track_call (issue d s)
              in if status_code = 200 then
                   (case body of
                      Some json \<Rightarrow> (Some json, s2)
                    | None \<Rightarrow>
                        (if int attempt < retries - 1
                         then request_loop retries (Suc attempt) http
                                (sleep (1000 * 2 ^ attempt) s2)
                         else (None, s2)))
                 else if status_code = 429 then
                   request_loop retries (Suc attempt) http (sleep 60000 s2)
                 else if 500 \<le> status_code then
                   request_loop retries (Suc attempt) http (sleep (1000 * 2 ^ attempt) s2)
                 else (None, s2))))"
  by pat_completeness auto
termination
  by (relation "measure (\<lambda>(retries, attempt, http, s). nat (retries - int attempt))") auto

declare request_loop.simps [simp del]

text \<open>\<^verbatim>\<open>_make_request\<close>: one pass through the rate limiter, then the loop.\<close>

definition make_request ::
  "int \<Rightarrow> (nat \<Rightarrow> reply) \<Rightarrow> feed \<Rightarrow> py_error + string option \<times> feed" where
  "make_request retries http s =
     (case enforce_rate_limit s of
        Inl e \<Rightarrow> Inl e
      | Inr s1 \<Rightarrow> Inr (request_loop retries 0 http s1))"


section \<open>The unified data manager: cache keys, cache and source selection\<close>

text \<open>
  \<^verbatim>\<open>alphalens/data/unified_data_manager.py\<close>. A \<^verbatim>\<open>datetime\<close> is the record of its
  fields; \<^verbatim>\<open>str(d.date())\<close> is the ISO form \<^verbatim>\<open>YYYY-MM-DD\<close> and \<^verbatim>\<open>str(d)\<close> the ISO
  form with a space, with the microseconds when they are not zero.
\<close>

record datetime =
  year :: nat
  month :: nat
  day :: nat
  hour :: nat
  minute :: nat
  second :: nat
  microsecond :: nat

definition digit :: "nat \<Rightarrow> char" where
  "digit n = ''0123456789'' ! (n mod 10)"

fun decimal :: "nat \<Rightarrow> string" where
  "decimal n = (if n < 10 then [digit n] else decimal (n div 10) @ [digit n])"

declare decimal.simps [simp del]

definition zero_pad :: "nat \<Rightarrow> nat \<Rightarrow> string" where
  "zero_pad w n = replicate (w - length (decimal n)) CHR ''0'' @ decimal n"

definition date_str :: "datetime \<Rightarrow> string" where
  "date_str d = zero_pad 4 (year d) @ ''-'' @ zero_pad 2 (month d) @ ''-'' @ zero_pad 2 (day d)"

definition datetime_str :: "datetime \<Rightarrow> string" where
  "datetime_str d =
     date_str d @ '' '' @ zero_pad 2 (hour d) @ '':'' @ zero_pad 2 (minute d) @ '':''
       @ zero_pad 2 (second d)
       @ (if microsecond d = 0 then [] else ''.'' @ zero_pad 6 (microsecond d))"

text \<open>\<^verbatim>\<open>sep.join(xs)\<close>\<close>

fun join :: "string \<Rightarrow> string list \<Rightarrow> string" where
  "join sep [] = []"
| "join sep [x] = x"
| "join sep (x # y # ys) = x @ sep @ join sep (y # ys)"

text \<open>
  The cache key of \<^verbatim>\<open>get_historical_data\<close>:
  \<^verbatim>\<open>f"hist_{'-'.join(symbols)}_{start.date()}_{end.date()}_{timeframe}"\<close>
\<close>

definition hist_key :: "string list \<Rightarrow> datetime \<Rightarrow> datetime \<Rightarrow> string \<Rightarrow> string" where
  "hist_key symbols start end timeframe =
     ''hist_'' @ join ''-'' symbols @ ''_'' @ date_str start @ ''_'' @ date_str end
       @ ''_'' @ timeframe"

text \<open>
  The cache key of \<^verbatim>\<open>get_options_chain\<close>:
  \<^verbatim>\<open>f"options_{underlying_symbol}_{expiration_date}_{strike_price}_{option_type}"\<close>.
  An absent filter prints as \<^verbatim>\<open>None\<close>. The strike price is a Python float; how Python
  prints it is the parameter \<open>float_str\<close>.
\<close>

definition str_opt :: "('a \<Rightarrow> string) \<Rightarrow> 'a option \<Rightarrow> string" where
  "str_opt f x = (case x of None \<Rightarrow> ''None'' | Some v \<Rightarrow> f v)"

definition options_key ::
  "(rat \<Rightarrow> string) \<Rightarrow> string \<Rightarrow> datetime option \<Rightarrow> rat option \<Rightarrow> string option \<Rightarrow> string" where
  "options_key float_str underlying_symbol expiration_date strike_price option_type =
     ''options_'' @ underlying_symbol @ ''_'' @ str_opt datetime_str expiration_date
       @ ''_'' @ str_opt float_str strike_price @ ''_'' @ str_opt (\<lambda>t. t) option_type"

text \<open>
  The cache key of \<^verbatim>\<open>get_crypto_data\<close>:
  \<^verbatim>\<open>f"crypto_{from_currency}{to_currency}_{start.date()}_{end.date()}_{timeframe}"\<close>
\<close>

definition crypto_key :: "string \<Rightarrow> string \<Rightarrow> datetime \<Rightarrow> datetime \<Rightarrow> string \<Rightarrow> string" where
  "crypto_key from_currency to_currency start end timeframe =
     ''crypto_'' @ from_currency @ to_currency @ ''_'' @ date_str start @ ''_''
       @ date_str end @ ''_'' @ timeframe"

text \<open>
  A \<^verbatim>\<open>DataFrame\<close> (and a \<^verbatim>\<open>Series\<close>) is the list of its rows, \<^verbatim>\<open>df.empty\<close> is
  \<open>df = []\<close> and \<^verbatim>\<open>pd.DataFrame()\<close> is \<open>[]\<close>. A data source is an external
  collaborator: \<open>connected\<close> is its attribute \<^verbatim>\<open>self.connected\<close>, and a call of one
  of its methods, once past the method's own check of that attribute, takes some time
  (in microseconds) and raises or returns.
\<close>

type_synonym frame = "string list"

datatype 'a outcome = Raised nat | Returned nat 'a

record data_feed =
  connected :: bool
  historical :: "string list \<Rightarrow> datetime \<Rightarrow> datetime \<Rightarrow> string \<Rightarrow> frame outcome"
  latest_prices :: "string list \<Rightarrow> frame outcome"
  options_chain ::
    "string \<Rightarrow> datetime option \<Rightarrow> rat option \<Rightarrow> string option \<Rightarrow> frame outcome"
  crypto :: "string \<Rightarrow> string \<Rightarrow> datetime \<Rightarrow> datetime \<Rightarrow> string \<Rightarrow> frame outcome"
  news :: "string option \<Rightarrow> int \<Rightarrow> string list outcome"

text \<open>
  The cache directory is the map from file names to file contents. A file holds the
  pickled dictionary \<^verbatim>\<open>{"data": ..., "timestamp": ...}\<close> or something that
  \<^verbatim>\<open>pickle.load\<close> cannot read. \<^verbatim>\<open>datetime.now()\<close> is the field \<open>now\<close>, in
  microseconds. The directory has no sub-directory. Removing an existing file is taken to
  succeed. \<open>cache_ops\<close> is a ghost field: the lookups, writes and removals so far, in order.
\<close>

datatype cache_file = Pickled frame int | Unreadable

datatype cache_op = Lookup string | Store string | Evict string | Clear

record manager =
  files :: "string \<rightharpoonup> cache_file"
  enable_caching :: bool
  sources :: "string \<rightharpoonup> data_feed option"
  cache_hits :: nat
  cache_misses :: nat
  now :: int
  cache_ops :: "cache_op list"

definition cache_path :: "string \<Rightarrow> string" where
  "cache_path key = key @ ''.pkl''"

definition age_hours :: "int \<Rightarrow> int \<Rightarrow> rat" where
  "age_hours t timestamp = of_int (t - timestamp) / 3600000000"

text \<open>
  \<^verbatim>\<open>_save_to_cache\<close>. A key that holds a path separator names a file below a
  sub-directory that does not exist: \<^verbatim>\<open>open\<close> raises, the exception is caught, and
  nothing is stored. Other failures of the write are not modelled.
\<close>

definition save_to_cache :: "manager \<Rightarrow> string \<Rightarrow> frame \<Rightarrow> manager" where
  "save_to_cache m key data =
     (if CHR ''/'' \<in> set key then m
      else m\<lparr>files := (files m)(cache_path key \<mapsto> Pickled data (now m)),
             cache_ops := cache_ops m @ [Store key]\<rparr>)"

text \<open>
  \<^verbatim>\<open>_load_from_cache\<close>: no file, or a file that cannot be read (the exception is
  caught), is \<^verbatim>\<open>None\<close>; an entry that is too old is removed.
\<close>

definition load_from_cache :: "manager \<Rightarrow> string \<Rightarrow> rat \<Rightarrow> frame option \<times> manager" where
  "load_from_cache m key max_age_hours =
     (let m1 = m\<lparr>cache_ops := cache_ops m @ [Lookup key]\<rparr>
      in case files m (cache_path key) of
           None \<Rightarrow> (None, m1)
         | Some Unreadable \<Rightarrow> (None, m1)
         | Some (Pickled data timestamp) \<Rightarrow>
             (if age_hours (now m) timestamp \<le> max_age_hours then (Some data, m1)
              else (None, m1\<lparr>files := (files m)(cache_path key := None),
                             cache_ops := cache_ops m1 @ [Evict key]\<rparr>)))"

text \<open>\<^verbatim>\<open>self.sources.get(name)\<close>: \<^verbatim>\<open>None\<close> for a missing name and for a source that is
  not configured.\<close>

definition sources_get :: "manager \<Rightarrow> string \<Rightarrow> data_feed option" where
  "sources_get m name = (case sources m name of None \<Rightarrow> None | Some feed \<Rightarrow> feed)"

definition elapse :: "nat \<Rightarrow> manager \<Rightarrow> manager" where
  "elapse d m = m\<lparr>now := now m + int d\<rparr>"

text \<open>
  The source selection of \<^verbatim>\<open>get_historical_data\<close>: a non-empty \<^verbatim>\<open>source\<close> argument
  is taken as it is, otherwise Polygon, then Yahoo.
\<close>

definition auto_select_historical :: "manager \<Rightarrow> string option" where
  "auto_select_historical m =
     (if sources_get m ''polygon'' \<noteq> None then Some ''polygon''
      else if sources_get m ''yahoo'' \<noteq> None then Some ''yahoo''
      else None)"

definition select_historical :: "manager \<Rightarrow> string option \<Rightarrow> string option" where
  "select_historical m source =
     (case source of
        None \<Rightarrow> auto_select_historical m
      | Some name \<Rightarrow> if name \<noteq> [] then Some name else auto_select_historical m)"

text \<open>
  \<^verbatim>\<open>self.sources[selected_source].get_historical_data(...)\<close> inside the \<^verbatim>\<open>try\<close>: an
  unknown name (\<^verbatim>\<open>KeyError\<close>) and a source that is \<^verbatim>\<open>None\<close> (\<^verbatim>\<open>AttributeError\<close>)
  raise at once, and so does \<^verbatim>\<open>get_historical_data\<close> of each of the three feeds when
  the feed is not connected.
\<close>

definition fetch_historical ::
  "manager \<Rightarrow> string \<Rightarrow> string list \<Rightarrow> datetime \<Rightarrow> datetime \<Rightarrow> string \<Rightarrow> frame outcome" where
  "fetch_historical m name symbols start end timeframe =
     (case sources_get m name of
        None \<Rightarrow> Raised 0
      | Some feed \<Rightarrow>
          if \<not> connected feed then Raised 0
          else historical feed symbols start end timeframe)"

text \<open>
  \<^verbatim>\<open>get_historical_data\<close>. The result is the raised error or the returned frame,
  with the state the call leaves behind.
\<close>

function get_historical_data ::
  "manager \<Rightarrow> string list \<Rightarrow> datetime \<Rightarrow> datetime \<Rightarrow> string \<Rightarrow> string option
     \<Rightarrow> (py_error + frame) \<times> manager" where
  "get_historical_data m symbols start end timeframe source =
     (let cache_key = hist_key symbols start end timeframe;
          looked = (if enable_caching m then load_from_cache m cache_key 24 else (None, m))
      in case fst looked of
           Some cached_data \<Rightarrow>
             (Inr cached_data, (snd looked)\<lparr>cache_hits := cache_hits (snd looked) + 1\<rparr>)
         | None \<Rightarrow>
             (let m2 = (snd looked)\<lparr>cache_misses := cache_misses (snd looked) + 1\<rparr>
              in case select_historical m2 source of
                   None \<Rightarrow> (Inl (RuntimeError ''No data sources available''), m2)
                 | Some selected_source \<Rightarrow>
                     (case fetch_historical m2 selected_source symbols start end timeframe of
                        Returned d data \<Rightarrow>
                          (let m3 = elapse d m2
                           in (Inr data,
                               if enable_caching m3 \<and> data \<noteq> []
                               then save_to_cache m3 cache_key data else m3))
                      | Raised d \<Rightarrow>
                          (let m3 = elapse d m2
                           in if selected_source = ''polygon''
                                 \<and> sources_get m3 ''yahoo'' \<noteq> None
                              then get_historical_data m3 symbols start end timeframe
                                     (Some ''yahoo'')
                              else (Inr [], m3)))))"
  by pat_completeness auto
termination
proof (relation "measure (\<lambda>(m, symbols, start, end, timeframe, source).
                            if source = Some ''yahoo'' then 0 else Suc 0)")
  show "wf (measure (\<lambda>(m, symbols, start, end, timeframe, source).
                       if source = Some ''yahoo'' then 0 else Suc 0))"
    by simp
next
  fix m :: manager and symbols start "end" timeframe source cache_key looked m2
    selected_source d m3
  assume "select_historical m2 source = Some selected_source"
    and "selected_source = ''polygon'' \<and> sources_get m3 ''yahoo'' \<noteq> None"
  then have "source \<noteq> Some ''yahoo''"
    by (auto simp add: select_historical_def)
  then show "((m3, symbols, start, end, timeframe, Some ''yahoo''),
              (m, symbols, start, end, timeframe, source))
             \<in> measure (\<lambda>(m, symbols, start, end, timeframe, source).
                          if source = Some ''yahoo'' then 0 else Suc 0)"
    by simp
qed

declare get_historical_data.simps [simp del]

text \<open>
  \<^verbatim>\<open>get_options_chain\<close>; the cache entry of an options chain lives 0.083 hours.
  \<^verbatim>\<open>PolygonDataFeed.get_options_chain\<close> does not look at \<^verbatim>\<open>self.connected\<close>.
\<close>

definition fetch_options ::
  "manager \<Rightarrow> string \<Rightarrow> datetime option \<Rightarrow> rat option \<Rightarrow> string option \<Rightarrow> frame outcome" where
  "fetch_options m underlying_symbol expiration_date strike_price option_type =
     (case sources_get m ''polygon'' of
        None \<Rightarrow> Raised 0
      | Some polygon \<Rightarrow>
          options_chain polygon underlying_symbol expiration_date strike_price option_type)"

definition get_options_chain ::
  "(rat \<Rightarrow> string) \<Rightarrow> manager \<Rightarrow> string \<Rightarrow> datetime option \<Rightarrow> rat option \<Rightarrow> string option
     \<Rightarrow> (py_error + frame) \<times> manager" where
  "get_options_chain float_str m underlying_symbol expiration_date strike_price option_type =
     (if sources_get m ''polygon'' = None
      then (Inl (RuntimeError ''Polygon is required for options data''), m)
      else
        (let cache_key =
               options_key float_str underlying_symbol expiration_date strike_price option_type;
             looked = (if enable_caching m then load_from_cache m cache_key (83 / 1000)
                       else (None, m))
         in case fst looked of
              Some cached_data \<Rightarrow>
                (Inr cached_data, (snd looked)\<lparr>cache_hits := cache_hits (snd looked) + 1\<rparr>)
            | None \<Rightarrow>
                (let m2 = (snd looked)\<lparr>cache_misses := cache_misses (snd looked) + 1\<rparr>
                 in case fetch_options m2 underlying_symbol expiration_date strike_price
                           option_type of
                      Returned d chain \<Rightarrow>
                        (let m3 = elapse d m2
                         in (Inr chain,
                             if enable_caching m3 \<and> chain \<noteq> []
                             then save_to_cache m3 cache_key chain else m3))
                    | Raised d \<Rightarrow> (Inr [], elapse d m2))))"

text \<open>
  \<^verbatim>\<open>get_crypto_data\<close>; the cache entry lives one hour.
  \<^verbatim>\<open>PolygonDataFeed.get_crypto_data\<close> does not look at \<^verbatim>\<open>self.connected\<close> either.
\<close>

definition fetch_crypto ::
  "manager \<Rightarrow> string \<Rightarrow> string \<Rightarrow> datetime \<Rightarrow> datetime \<Rightarrow> string \<Rightarrow> frame outcome" where
  "fetch_crypto m from_currency to_currency start end timeframe =
     (case sources_get m ''polygon'' of
        None \<Rightarrow> Raised 0
      | Some polygon \<Rightarrow> crypto polygon from_currency to_currency start end timeframe)"

definition get_crypto_data ::
  "manager \<Rightarrow> string \<Rightarrow> string \<Rightarrow> datetime \<Rightarrow> datetime \<Rightarrow> string
     \<Rightarrow> (py_error + frame) \<times> manager" where
  "get_crypto_data m from_currency to_currency start end timeframe =
     (if sources_get m ''polygon'' = None
      then (Inl (RuntimeError ''Polygon is required for crypto data''), m)
      else
        (let cache_key = crypto_key from_currency to_currency start end timeframe;
             looked = (if enable_caching m then load_from_cache m cache_key 1
                       else (None, m))
         in case fst looked of
              Some cached_data \<Rightarrow>
                (Inr cached_data, (snd looked)\<lparr>cache_hits := cache_hits (snd looked) + 1\<rparr>)
            | None \<Rightarrow>
                (let m2 = (snd looked)\<lparr>cache_misses := cache_misses (snd looked) + 1\<rparr>
                 in case fetch_crypto m2 from_currency to_currency start end timeframe of
                      Returned d data \<Rightarrow>
                        (let m3 = elapse d m2
                         in (Inr data,
                             if enable_caching m3 \<and> data \<noteq> []
                             then save_to_cache m3 cache_key data else m3))
                    | Raised d \<Rightarrow> (Inr [], elapse d m2))))"

text \<open>
  \<^verbatim>\<open>get_latest_prices\<close>: Alpaca, then Polygon, then Yahoo; nothing is cached.
  \<^verbatim>\<open>get_latest_prices\<close> of the Alpaca and of the Yahoo feed raise when the feed is not
  connected; the one of the Polygon feed does not look.
\<close>

definition select_latest :: "manager \<Rightarrow> string option \<Rightarrow> string option" where
  "select_latest m source =
     (let auto = (if sources_get m ''alpaca'' \<noteq> None then Some ''alpaca''
                  else if sources_get m ''polygon'' \<noteq> None then Some ''polygon''
                  else if sources_get m ''yahoo'' \<noteq> None then Some ''yahoo''
                  else None)
      in case source of
           None \<Rightarrow> auto
         | Some name \<Rightarrow> if name \<noteq> [] then Some name else auto)"

definition fetch_latest :: "manager \<Rightarrow> string \<Rightarrow> string list \<Rightarrow> frame outcome" where
  "fetch_latest m name symbols =
     (case sources_get m name of
        None \<Rightarrow> Raised 0
      | Some feed \<Rightarrow>
          if name \<noteq> ''polygon'' \<and> \<not> connected feed then Raised 0
          else latest_prices feed symbols)"

function get_latest_prices ::
  "manager \<Rightarrow> string list \<Rightarrow> string option \<Rightarrow> (py_error + frame) \<times> manager" where
  "get_latest_prices m symbols source =
     (case select_latest m source of
        None \<Rightarrow> (Inl (RuntimeError ''No data sources available''), m)
      | Some selected_source \<Rightarrow>
          (case fetch_latest m selected_source symbols of
             Returned d prices \<Rightarrow> (Inr prices, elapse d m)
           | Raised d \<Rightarrow>
               (let m1 = elapse d m
                in if selected_source = ''alpaca'' \<and> sources_get m1 ''polygon'' \<noteq> None
                   then get_latest_prices m1 symbols (Some ''polygon'')
                   else if selected_source = ''polygon''
                           \<and> sources_get m1 ''yahoo'' \<noteq> None
                   then get_latest_prices m1 symbols (Some ''yahoo'')
                   else (Inr [], m1))))"
  by pat_completeness auto
termination
proof (relation "measure (\<lambda>(m, symbols, source).
                            if source = Some ''yahoo'' then 0
                            else if source = Some ''polygon'' then 1 else 2)")
  show "wf (measure (\<lambda>(m, symbols, source).
                       if source = Some ''yahoo'' then 0
                       else if source = Some ''polygon'' then 1 else (2::nat)))"
    by simp
next
  fix m :: manager and symbols source selected_source d m1
  assume "select_latest m source = Some selected_source"
    and "selected_source = ''alpaca'' \<and> sources_get m1 ''polygon'' \<noteq> None"
  then have "source \<noteq> Some ''yahoo'' \<and> source \<noteq> Some ''polygon''"
    by (auto simp add: select_latest_def)
  then show "((m1, symbols, Some ''polygon''), (m, symbols, source))
             \<in> measure (\<lambda>(m, symbols, source).
                          if source = Some ''yahoo'' then 0
                          else if source = Some ''polygon'' then 1 else 2)"
    by simp
next
  fix m :: manager and symbols source selected_source d m1
  assume "select_latest m source = Some selected_source"
    and "selected_source = ''polygon'' \<and> sources_get m1 ''yahoo'' \<noteq> None"
  then have "source \<noteq> Some ''yahoo''"
    by (auto simp add: select_latest_def)
  then show "((m1, symbols, Some ''yahoo''), (m, symbols, source))
             \<in> measure (\<lambda>(m, symbols, source).
                          if source = Some ''yahoo'' then 0
                          else if source = Some ''polygon'' then 1 else 2)"
    by simp
qed

declare get_latest_prices.simps [simp del]

text \<open>\<^verbatim>\<open>get_news\<close>: Polygon only; nothing is cached and nothing is raised.\<close>

definition get_news :: "manager \<Rightarrow> string option \<Rightarrow> int \<Rightarrow> string list \<times> manager" where
  "get_news m symbol limit =
     (case sources_get m ''polygon'' of
        None \<Rightarrow> ([], m)
      | Some polygon \<Rightarrow>
          (case news polygon symbol limit of
             Returned d articles \<Rightarrow> (articles, elapse d m)
           | Raised d \<Rightarrow> ([], elapse d m)))"

text \<open>\<^verbatim>\<open>get_cache_stats\<close> and \<^verbatim>\<open>clear_cache\<close>.\<close>

record cache_stats =
  stat_cache_hits :: nat
  stat_cache_misses :: nat
  stat_hit_rate :: rat
  stat_total_requests :: nat

definition get_cache_stats :: "manager \<Rightarrow> cache_stats" where
  "get_cache_stats m =
     (let total_requests = cache_hits m + cache_misses m;
          hit_rate = (if 0 < total_requests
                      then of_nat (cache_hits m) / of_nat total_requests else 0)
      in \<lparr>stat_cache_hits = cache_hits m, stat_cache_misses = cache_misses m,
          stat_hit_rate = hit_rate, stat_total_requests = total_requests\<rparr>)"

definition clear_cache :: "manager \<Rightarrow> manager" where
  "clear_cache m = m\<lparr>files := Map.empty, cache_ops := cache_ops m @ [Clear]\<rparr>"

text \<open>
  \<^verbatim>\<open>__init__\<close>. For each source, the constructor of the feed raises \<^verbatim>\<open>ImportError\<close>
  (its library is not installed) or gives the feed object, with \<^verbatim>\<open>connected = False\<close>;
  then \<^verbatim>\<open>connect()\<close> is called. \<^verbatim>\<open>connect\<close> of the Alpaca and of the Polygon feed
  catch every exception and return whether the connection was made, and \<^verbatim>\<open>__init__\<close>
  does not look at what they return; \<^verbatim>\<open>connect\<close> of the Yahoo feed always succeeds.
  So the \<^verbatim>\<open>except\<close> branch that stores \<^verbatim>\<open>None\<close> is reached from the constructor
  only. A key is taken when it is neither \<^verbatim>\<open>None\<close> nor empty. The cache directory may
  hold files of an earlier run.
\<close>

datatype construction = Import_error | Constructed data_feed

record world =
  alpaca_feed :: construction
  alpaca_connects :: bool
  polygon_feed :: construction
  polygon_connects :: bool
  yahoo_feed :: construction
  cache_dir :: "string \<rightharpoonup> cache_file"
  time_now :: int

definition truthy :: "string option \<Rightarrow> bool" where
  "truthy key = (case key of None \<Rightarrow> False | Some k \<Rightarrow> k \<noteq> [])"

definition start_source :: "construction \<Rightarrow> bool \<Rightarrow> data_feed option" where
  "start_source c connects =
     (case c of
        Import_error \<Rightarrow> None
      | Constructed feed \<Rightarrow> Some (feed\<lparr>connected := connects\<rparr>))"

definition init_manager ::
  "string option \<Rightarrow> string option \<Rightarrow> string option \<Rightarrow> bool \<Rightarrow> world \<Rightarrow> manager" where
  "init_manager alpaca_key alpaca_secret polygon_key caching w =
     \<lparr>files = cache_dir w,
      enable_caching = caching,
      sources =
        [''alpaca'' \<mapsto> (if truthy alpaca_key \<and> truthy alpaca_secret
                          then start_source (alpaca_feed w) (alpaca_connects w) else None),
         ''polygon'' \<mapsto> (if truthy polygon_key
                           then start_source (polygon_feed w) (polygon_connects w) else None),
         ''yahoo'' \<mapsto> start_source (yahoo_feed w) True],
      cache_hits = 0, cache_misses = 0, now = time_now w, cache_ops = []\<rparr>"


section \<open>Notions used to state the properties\<close>

text \<open>The number of HTTP calls issued so far.\<close>

definition attempts_made :: "feed \<Rightarrow> nat" where
  "attempts_made s = length (filter (\<lambda>e. e = Attempt) (trace s))"

text \<open>
  The number of recorded call timestamps in the trailing 60-second window, with the
  test \<^verbatim>\<open>now - ts < 60\<close> of the purge.
\<close>

definition window_count :: "feed \<Rightarrow> nat" where
  "window_count s = length (filter (\<lambda>t. clock s - t < 60000) (call_timestamps s))"

text \<open>
  Every HTTP call of a trace is preceded by a pass through the rate limiter of its own:
  a pass admits one call (\<open>admitted\<close> says that a pass is still unused).
\<close>

fun attempts_admitted :: "bool \<Rightarrow> event list \<Rightarrow> bool" where
  "attempts_admitted admitted [] = True"
| "attempts_admitted admitted (Admit # es) = attempts_admitted True es"
| "attempts_admitted admitted (Attempt # es) = (admitted \<and> attempts_admitted False es)"
| "attempts_admitted admitted (Sleep d # es) = attempts_admitted admitted es"

text \<open>
  A server that answers 500 twice and then 200, one that always answers 429 and one that
  always answers 404; every answer takes 200 milliseconds.
\<close>

definition two_errors_then_ok :: "nat \<Rightarrow> reply" where
  "two_errors_then_ok i = (if i < 2 then Http 200 500 None else Http 200 200 (Some ''{}''))"

definition always_throttled :: "nat \<Rightarrow> reply" where
  "always_throttled i = Http 200 429 None"

definition always_not_found :: "nat \<Rightarrow> reply" where
  "always_not_found i = Http 200 404 None"

text \<open>A further request on the state that an earlier request left.\<close>

definition then_request ::
  "py_error + string option \<times> feed \<Rightarrow> int \<Rightarrow> (nat \<Rightarrow> reply)
     \<Rightarrow> py_error + string option \<times> feed" where
  "then_request r retries http =
     (case r of Inl e \<Rightarrow> Inl e | Inr (json, s) \<Rightarrow> make_request retries http s)"

text \<open>A call of a data source failed.\<close>

definition failed :: "'a outcome \<Rightarrow> bool" where
  "failed r = (case r of Raised d \<Rightarrow> True | Returned d x \<Rightarrow> False)"

text \<open>The cache holds a readable entry under the key that is older than the bound.\<close>

definition stale :: "manager \<Rightarrow> string \<Rightarrow> rat \<Rightarrow> bool" where
  "stale m key max_age_hours =
     (case files m (cache_path key) of
        Some (Pickled data timestamp) \<Rightarrow> max_age_hours < age_hours (now m) timestamp
      | _ \<Rightarrow> False)"

text \<open>Example data: days of January 2024, two data sources, a manager as \<^verbatim>\<open>__init__\<close>
  leaves it (Alpaca not configured), and a manager with one cache entry.\<close>

definition jan :: "nat \<Rightarrow> datetime" where
  "jan d = \<lparr>year = 2024, month = 1, day = d, hour = 0, minute = 0, second = 0,
            microsecond = 0\<rparr>"

definition feed_down :: data_feed where
  "feed_down =
     \<lparr>connected = True,
      historical = (\<lambda>symbols start end timeframe. Raised 0),
      latest_prices = (\<lambda>symbols. Raised 0),
      options_chain = (\<lambda>underlying expiration strike option_type. Raised 0),
      crypto = (\<lambda>from_currency to_currency start end timeframe. Raised 0),
      news = (\<lambda>symbol limit. Raised 0)\<rparr>"

definition feed_up :: data_feed where
  "feed_up =
     \<lparr>connected = True,
      historical = (\<lambda>symbols start end timeframe. Returned 0 (map (\<lambda>s. s @ '' bar'') symbols)),
      latest_prices = (\<lambda>symbols. Returned 0 (map (\<lambda>s. s @ '' price'') symbols)),
      options_chain = (\<lambda>underlying expiration strike option_type.
                         Returned 0 [underlying @ '' call'']),
      crypto = (\<lambda>from_currency to_currency start end timeframe.
                  Returned 0 [from_currency @ to_currency @ '' bar'']),
      news = (\<lambda>symbol limit. Returned 0 [''article''])\<rparr>"

definition new_manager :: "data_feed option \<Rightarrow> data_feed option \<Rightarrow> manager" where
  "new_manager polygon yahoo =
     \<lparr>files = Map.empty, enable_caching = True,
      sources = [''alpaca'' \<mapsto> None, ''polygon'' \<mapsto> polygon, ''yahoo'' \<mapsto> yahoo],
      cache_hits = 0, cache_misses = 0, now = 0, cache_ops = []\<rparr>"

definition cached_at :: "int \<Rightarrow> int \<Rightarrow> manager" where
  "cached_at written t =
     (new_manager None (Some feed_down))
       \<lparr>files := [cache_path ''k'' \<mapsto> Pickled [''row''] written], now := t\<rparr>"


text \<open>The state after the lookup and the count of the miss.\<close>

definition after_miss :: "manager \<Rightarrow> string \<Rightarrow> manager" where
  "after_miss m key =
     (snd (if enable_caching m then load_from_cache m key 24 else (None, m)))
       \<lparr>cache_misses :=
          cache_misses (snd (if enable_caching m then load_from_cache m key 24
                             else (None, m))) + 1\<rparr>"

text \<open>A manager whose cache holds an entry of 25 hours for AAPL; both sources are down.\<close>

definition stale_manager :: manager where
  "stale_manager =
     (new_manager (Some feed_down) (Some feed_down))
       \<lparr>files := [cache_path (hist_key [''AAPL''] (jan 2) (jan 5) ''1Day'')
                    \<mapsto> Pickled [''old bar''] 0],
         now := 90000000000\<rparr>"


text \<open>
  Nothing was written to the cache between the states \<open>m\<close> and \<open>m'\<close>, where a request
  with cache key \<open>key\<close> and age bound \<open>bound\<close> was made in between. First, the file
  \<open>p\<close> of the cache directory is as it was, or it is the file of \<open>key\<close>, it held a
  readable entry that was already older than \<open>bound\<close>, and it is gone. Second, a
  lookup of the key \<open>k\<close> with the bound \<open>a\<close> at the later time \<open>t\<close> returns from
  \<open>m'\<close> what it returns from \<open>m\<close>; a lookup of \<open>key\<close> itself comes with a bound of at
  most \<open>bound\<close>, the bound of the requests that use this key.
\<close>

definition cache_as_before ::
  "manager \<Rightarrow> manager \<Rightarrow> string \<Rightarrow> rat \<Rightarrow> string \<Rightarrow> int \<Rightarrow> string \<Rightarrow> rat \<Rightarrow> bool" where
  "cache_as_before m m' key bound p t k a =
     ((files m' p = files m p
         \<or> (files m' p = None \<and> p = cache_path key \<and> stale m key bound))
      \<and> (now m \<le> t \<and> (k = key \<longrightarrow> a \<le> bound) \<longrightarrow>
           fst (load_from_cache (m'\<lparr>now := t\<rparr>) k a)
             = fst (load_from_cache (m\<lparr>now := t\<rparr>) k a)))"

text \<open>
  The Polygon feed as its constructor leaves it while the Polygon API rejects the key or
  cannot be reached: \<^verbatim>\<open>_make_request\<close> returns \<^verbatim>\<open>None\<close>, and the methods that do
  not look at \<^verbatim>\<open>self.connected\<close> return an empty result after 0.2 seconds. The
  surroundings of a manager that is created while Polygon is in this state, and of one
  for which the Yahoo library is not installed.
\<close>

definition feed_unreachable :: data_feed where
  "feed_unreachable =
     \<lparr>connected = False,
      historical = (\<lambda>symbols start end timeframe. Returned 200000 []),
      latest_prices = (\<lambda>symbols. Returned 200000 []),
      options_chain = (\<lambda>underlying expiration strike option_type. Returned 200000 []),
      crypto = (\<lambda>from_currency to_currency start end timeframe. Returned 200000 []),
      news = (\<lambda>symbol limit. Returned 200000 [])\<rparr>"

definition polygon_unreachable :: world where
  "polygon_unreachable =
     \<lparr>alpaca_feed = Import_error, alpaca_connects = False,
      polygon_feed = Constructed feed_unreachable, polygon_connects = False,
      yahoo_feed = Constructed feed_up,
      cache_dir = Map.empty, time_now = 0\<rparr>"

definition alpaca_only :: world where
  "alpaca_only =
     \<lparr>alpaca_feed = Constructed feed_up, alpaca_connects = True,
      polygon_feed = Constructed feed_up, polygon_connects = True,
      yahoo_feed = Import_error,
      cache_dir = Map.empty, time_now = 0\<rparr>"


section \<open>The retrying request\<close>

lemma attempts_made_sleep [simp]: "attempts_made (sleep d s) = attempts_made s"
  by (simp add: attempts_made_def sleep_def)

lemma attempts_made_issue [simp]: "attempts_made (issue d s) = Suc (attempts_made s)"
  by (simp add: attempts_made_def issue_def)

lemma attempts_made_track_call [simp]: "attempts_made (track_call s) = attempts_made s"
  by (simp add: attempts_made_def track_call_def)

lemma request_loop_attempts:
  "attempts_made (snd (request_loop retries attempt http s))
     \<le> attempts_made s + nat (retries - int attempt)"
proof (induction retries attempt http s rule: request_loop.induct)
  case (1 retries attempt http s)
  show ?case
  proof (cases "retries \<le> int attempt")
    case True
    then show ?thesis by (simp add: request_loop.simps [of retries attempt])
  next
    case False
    then have step: "nat (retries - int (Suc attempt)) + 1 = nat (retries - int attempt)"
      by simp
    show ?thesis
    proof (cases "http attempt")
      case (Raises d)
      with False 1(1) [OF False Raises refl] step show ?thesis
        by (auto simp add: request_loop.simps [of retries attempt] Let_def)
    next
      case (Http d status_code body)
      note ih2 = 1(2) [OF False Http refl]
      note ih3 = 1(3) [OF False Http refl]
      note ih4 = 1(4) [OF False Http refl]
      show ?thesis
      proof (cases "status_code = 200")
        case True
        with False Http ih2 step show ?thesis
          by (cases body) (auto simp add: request_loop.simps [of retries attempt] Let_def)
      next
        case n200: False
        show ?thesis
        proof (cases "status_code = 429")
          case True
          with False Http n200 ih3 step show ?thesis
            by (auto simp add: request_loop.simps [of retries attempt] Let_def)
        next
          case n429: False
          with False Http n200 ih4 step show ?thesis
            by (auto simp add: request_loop.simps [of retries attempt] Let_def)
        qed
      qed
    qed
  qed
qed

text \<open>What the three effects of the loop body preserve, the loop preserves.\<close>

lemma request_loop_invariant:
  assumes "P s"
    and "\<And>s d. P s \<Longrightarrow> P (issue d s)"
    and "\<And>s. P s \<Longrightarrow> P (track_call s)"
    and "\<And>s d. P s \<Longrightarrow> P (sleep d s)"
  shows "P (snd (request_loop retries attempt http s))"
  using assms(1)
proof (induction retries attempt http s rule: request_loop.induct)
  case (1 retries attempt http s)
  show ?case
  proof (cases "retries \<le> int attempt")
    case True
    with 1(5) show ?thesis by (simp add: request_loop.simps [of retries attempt])
  next
    case False
    show ?thesis
    proof (cases "http attempt")
      case (Raises d)
      have "P (sleep (1000 * 2 ^ attempt) (issue d s))" "P (issue d s)"
        using 1(5) assms(2,4) by simp_all
      with False Raises 1(1) [OF False Raises refl] show ?thesis
        by (auto simp add: request_loop.simps [of retries attempt] Let_def)
    next
      case (Http d status_code body)
      have p2: "P (track_call (issue d s))"
        using 1(5) assms(2,3) by simp
      then have ps: "\<And>w. P (sleep w (track_call (issue d s)))"
        using assms(4) by simp
      note ih2 = 1(2) [OF False Http refl]
      note ih3 = 1(3) [OF False Http refl]
      note ih4 = 1(4) [OF False Http refl]
      show ?thesis
      proof (cases "status_code = 200")
        case True
        with False Http ih2 p2 ps show ?thesis
          by (cases body) (auto simp add: request_loop.simps [of retries attempt] Let_def)
      next
        case n200: False
        show ?thesis
        proof (cases "status_code = 429")
          case True
          with False Http n200 ih3 p2 ps show ?thesis
            by (auto simp add: request_loop.simps [of retries attempt] Let_def)
        next
          case n429: False
          with False Http n200 ih4 p2 ps show ?thesis
            by (auto simp add: request_loop.simps [of retries attempt] Let_def)
        qed
      qed
    qed
  qed
qed

lemma request_loop_trace_prefix:
  "prefix (trace s) (trace (snd (request_loop retries attempt http s)))"
  by (rule request_loop_invariant [where P = "\<lambda>s'. prefix (trace s) (trace s')"])
     (auto simp add: issue_def track_call_def sleep_def)

lemma request_loop_first_attempt:
  assumes "int attempt < retries"
  shows "prefix (trace s @ [Attempt]) (trace (snd (request_loop retries attempt http s)))"
proof -
  have later: "prefix (trace s @ [Attempt]) (trace (snd (request_loop retries a http s')))"
    if "prefix (trace s @ [Attempt]) (trace s')" for a s'
    using that request_loop_trace_prefix [of s' retries a http] by (rule prefix_order.trans)
  show ?thesis
  proof (cases "http attempt")
    case (Raises d)
    with assms later [of "sleep (1000 * 2 ^ attempt) (issue d s)" "Suc attempt"] show ?thesis
      by (auto simp add: request_loop.simps [of retries attempt] Let_def issue_def sleep_def)
  next
    case (Http d status_code body)
    with assms later [of "sleep (1000 * 2 ^ attempt) (track_call (issue d s))" "Suc attempt"]
      later [of "sleep 60000 (track_call (issue d s))" "Suc attempt"]
    show ?thesis
      by (cases body)
        (auto simp add: request_loop.simps [of retries attempt] Let_def issue_def
          track_call_def sleep_def)
  qed
qed

lemma request_loop_retry_after:
  assumes "int attempt + 1 < retries"
  shows "prefix (trace s @ [Attempt, Sleep w, Attempt])
           (trace (snd (request_loop retries (Suc attempt) http
                          (sleep w (track_call (issue d s))))))"
proof -
  from assms have "int (Suc attempt) < retries" by simp
  from request_loop_first_attempt [OF this, of "sleep w (track_call (issue d s))" http]
  show ?thesis by (simp add: sleep_def track_call_def issue_def)
qed

text \<open>
  Claim C6. Whatever the retry count \<open>retries\<close> and whatever the server answers,
  \<^verbatim>\<open>_make_request\<close> returns, having issued at most \<open>retries\<close> HTTP calls (none when
  \<open>retries\<close> is not positive). The only other outcome is the \<^verbatim>\<open>ValueError\<close> of the
  rate limiter on a limit of 0, raised before any call is issued. That the loop ends is
  the termination proof of \<open>request_loop\<close>.
\<close>

theorem make_request_attempts_bounded:
  "(\<exists>r s'. make_request retries http s = Inr (r, s')
       \<and> attempts_made s' \<le> attempts_made s + nat retries)
   \<or> (make_request retries http s = Inl ValueError \<and> calls_per_minute s = 0)"
proof (cases "enforce_rate_limit s")
  case (Inl e)
  then have "e = ValueError \<and> calls_per_minute s = 0"
    by (auto simp add: enforce_rate_limit_def Let_def split: if_splits)
  with Inl show ?thesis by (simp add: make_request_def)
next
  case (Inr s1)
  then have "attempts_made s1 = attempts_made s"
    by (auto simp add: enforce_rate_limit_def Let_def attempts_made_def sleep_def
        split: if_splits)
  with Inr request_loop_attempts [of retries 0 http s1] show ?thesis
    by (cases "request_loop retries 0 http s1") (simp add: make_request_def)
qed

text \<open>
  Claim C7. At an attempt that is answered with a status code and that is not the last
  one allowed (\<open>attempt + 1 < retries\<close>): a 429 is followed by a wait of 60 seconds and
  then by the next attempt, and a 5xx is followed by a wait of \<open>2 ^ attempt\<close> seconds
  (1, 2, 4, ...) and then by the next attempt. At any attempt, any other 4xx returns
  \<^verbatim>\<open>None\<close> at once, with no wait and no further attempt. The retry is read within the
  bound of Claim C6: after the last attempt allowed, none follows.
\<close>

theorem retry_policy_by_status:
  assumes "int attempt < retries" and "http attempt = Http d status_code body"
  shows "(status_code = 429 \<and> int attempt + 1 < retries \<longrightarrow>
            prefix (trace s @ [Attempt, Sleep 60000, Attempt])
              (trace (snd (request_loop retries attempt http s))))
       \<and> (500 \<le> status_code \<and> int attempt + 1 < retries \<longrightarrow>
            prefix (trace s @ [Attempt, Sleep (1000 * 2 ^ attempt), Attempt])
              (trace (snd (request_loop retries attempt http s))))
       \<and> (400 \<le> status_code \<and> status_code < 500 \<and> status_code \<noteq> 429 \<longrightarrow>
            request_loop retries attempt http s = (None, track_call (issue d s)))"
proof (intro conjI impI)
  assume "status_code = 429 \<and> int attempt + 1 < retries"
  with assms request_loop_retry_after [of attempt retries s 60000 http d]
  show "prefix (trace s @ [Attempt, Sleep 60000, Attempt])
          (trace (snd (request_loop retries attempt http s)))"
    by (simp add: request_loop.simps [of retries attempt] Let_def)
next
  assume "500 \<le> status_code \<and> int attempt + 1 < retries"
  with assms request_loop_retry_after [of attempt retries s "1000 * 2 ^ attempt" http d]
  show "prefix (trace s @ [Attempt, Sleep (1000 * 2 ^ attempt), Attempt])
          (trace (snd (request_loop retries attempt http s)))"
    by (simp add: request_loop.simps [of retries attempt] Let_def)
next
  assume "400 \<le> status_code \<and> status_code < 500 \<and> status_code \<noteq> 429"
  with assms show "request_loop retries attempt http s = (None, track_call (issue d s))"
    by (simp add: request_loop.simps [of retries attempt] Let_def)
qed

text \<open>
  Three attempts are allowed. A 429 at the first attempt: a wait of 60 seconds, then a
  retry. A 500 at the second attempt: a wait of 2 seconds, then a retry. A 404 at the
  first attempt: the call returns at once.
\<close>

theorem retry_policy_by_status_witness:
  "prefix [Attempt, Sleep 60000, Attempt]
     (trace (snd (request_loop 3 0 always_throttled (init_feed ''free'' 0))))
   \<and> prefix [Attempt, Sleep 2000, Attempt]
     (trace (snd (request_loop 3 1 two_errors_then_ok (init_feed ''free'' 0))))
   \<and> map_prod id trace (request_loop 3 0 always_not_found (init_feed ''free'' 0))
     = (None, [Attempt])"
  using retry_policy_by_status
    [of 0 3 always_throttled 200 429 None "init_feed ''free'' 0"]
    retry_policy_by_status
    [of 1 3 two_errors_then_ok 200 500 None "init_feed ''free'' 0"]
    retry_policy_by_status
    [of 0 3 always_not_found 200 404 None "init_feed ''free'' 0"]
  by (simp add: init_feed_def always_throttled_def two_errors_then_ok_def
      always_not_found_def track_call_def issue_def)

text \<open>
  Claim C2, on a failing input. A feed of the free tier (5 calls per minute) makes two
  requests; the server answers each with 500, 500, 200. The retries are issued without
  a pass through the rate limiter, and after 7.2 seconds the trailing window holds six
  call timestamps.
\<close>

theorem rate_window_overrun:
  "map_sum id (\<lambda>(json, s). (window_count s, calls_per_minute s))
     (then_request (make_request 3 two_errors_then_ok (init_feed ''free'' 0))
        3 two_errors_then_ok)
   = Inr (6, 5)"
  by (simp add: then_request_def make_request_def enforce_rate_limit_def init_feed_def
      rate_limits_def request_loop.simps two_errors_then_ok_def issue_def track_call_def
      sleep_def Let_def window_count_def)

text \<open>
  Claim C5, on a failing input. One request that the server answers with 500, 500, 200:
  the rate limiter is passed once, before the first attempt, and the second and third
  attempts follow a sleep only.
\<close>

theorem retries_bypass_rate_limiter:
  "map_sum id (\<lambda>(json, s). (trace s, attempts_admitted False (trace s)))
     (make_request 3 two_errors_then_ok (init_feed ''free'' 0))
   = Inr ([Admit, Attempt, Sleep 1000, Attempt, Sleep 2000, Attempt], False)"
  by (simp add: make_request_def enforce_rate_limit_def init_feed_def rate_limits_def
      request_loop.simps two_errors_then_ok_def issue_def track_call_def sleep_def Let_def)


section \<open>Cache keys\<close>

lemma join_Cons: "join sep (x # xs) = (if xs = [] then x else x @ sep @ join sep xs)"
  by (cases xs) simp_all

lemma split_at_first:
  "c \<notin> set x \<Longrightarrow> c \<notin> set y \<Longrightarrow> x @ c # r = y @ c # r' \<Longrightarrow> x = y \<and> r = r'"
proof (induction x arbitrary: y)
  case Nil
  then show ?case by (cases y) auto
next
  case (Cons a x)
  then show ?case by (cases y) auto
qed

lemma join_dash_inject:
  assumes "\<forall>s \<in> set xs \<union> set ys. s \<noteq> [] \<and> CHR ''-'' \<notin> set s"
    and "join ''-'' xs = join ''-'' ys"
  shows "xs = ys"
  using assms
proof (induction xs arbitrary: ys)
  case Nil
  then show ?case by (cases ys) (auto simp add: join_Cons split: if_splits)
next
  case (Cons x xs)
  show ?case
  proof (cases ys)
    case Nil
    with Cons.prems show ?thesis by (auto simp add: join_Cons split: if_splits)
  next
    case ys: (Cons y ys')
    have nd: "CHR ''-'' \<notin> set x" "CHR ''-'' \<notin> set y"
      using Cons.prems(1) ys by auto
    show ?thesis
    proof (cases "xs = []")
      case True
      show ?thesis
      proof (cases "ys' = []")
        case True
        with \<open>xs = []\<close> Cons.prems(2) ys show ?thesis by simp
      next
        case False
        with \<open>xs = []\<close> Cons.prems(2) ys have "x = y @ ''-'' @ join ''-'' ys'"
          by (simp add: join_Cons)
        with nd show ?thesis by auto
      qed
    next
      case False
      show ?thesis
      proof (cases "ys' = []")
        case True
        with False Cons.prems(2) ys have "y = x @ ''-'' @ join ''-'' xs"
          by (simp add: join_Cons)
        with nd show ?thesis by auto
      next
        case ne: False
        with False Cons.prems(2) ys
        have "x @ CHR ''-'' # join ''-'' xs = y @ CHR ''-'' # join ''-'' ys'"
          by (simp add: join_Cons)
        with nd have "x = y \<and> join ''-'' xs = join ''-'' ys'"
          by (rule split_at_first)
        moreover have "\<forall>s \<in> set xs \<union> set ys'. s \<noteq> [] \<and> CHR ''-'' \<notin> set s"
          using Cons.prems(1) ys by auto
        ultimately show ?thesis using Cons.IH [of ys'] ys by simp
      qed
    qed
  qed
qed

text \<open>
  Claim C4, as amended. The key joins the symbols in the order in which the caller lists
  them: for symbols that are not empty and hold no \<^verbatim>\<open>-\<close>, two requests with the same
  start, end and timeframe have the same key exactly when they list the same symbols in
  the same order. So the same symbols in another order are another cache entry.
\<close>

theorem hist_key_same_order:
  assumes "\<forall>s \<in> set xs \<union> set ys. s \<noteq> [] \<and> CHR ''-'' \<notin> set s"
  shows "hist_key xs start end timeframe = hist_key ys start end timeframe \<longleftrightarrow> xs = ys"
  using join_dash_inject [OF assms] by (auto simp add: hist_key_def)

theorem hist_key_same_order_witness:
  "(hist_key [''AAPL'', ''MSFT''] (jan 2) (jan 5) ''1Day''
      = hist_key [''MSFT'', ''AAPL''] (jan 2) (jan 5) ''1Day'')
   = ([''AAPL'', ''MSFT''] = [''MSFT'', ''AAPL''])"
  using hist_key_same_order
    [of "[''AAPL'', ''MSFT'']" "[''MSFT'', ''AAPL'']" "jan 2" "jan 5" "''1Day''"]
  by simp

text \<open>
  Claim C4 as stated fails: the requests for AAPL, MSFT and for MSFT, AAPL over the same
  dates and timeframe have different keys.
\<close>

theorem hist_key_depends_on_order:
  "hist_key [''AAPL'', ''MSFT''] (jan 2) (jan 5) ''1Day''
     = ''hist_AAPL-MSFT_2024-01-02_2024-01-05_1Day''
   \<and> hist_key [''MSFT'', ''AAPL''] (jan 2) (jan 5) ''1Day''
     = ''hist_MSFT-AAPL_2024-01-02_2024-01-05_1Day''"
  by (simp add: hist_key_def date_str_def zero_pad_def jan_def decimal.simps digit_def)


section \<open>The cache\<close>

text \<open>
  Claim C1. For every key and every bound: when the stored entry is older than the
  bound, the lookup returns nothing and the record is gone from the cache directory;
  and whatever a lookup returns is a stored entry whose age is within the bound.
  (Ages are compared as exact numbers here, where Python compares floats.)
\<close>

theorem cache_lookup_never_stale:
  "(files m (cache_path key) = Some (Pickled data timestamp)
      \<and> max_age_hours < age_hours (now m) timestamp \<longrightarrow>
        fst (load_from_cache m key max_age_hours) = None
        \<and> files (snd (load_from_cache m key max_age_hours)) (cache_path key) = None)
   \<and> (fst (load_from_cache m key max_age_hours) = Some served \<longrightarrow>
        (\<exists>written. files m (cache_path key) = Some (Pickled served written)
           \<and> age_hours (now m) written \<le> max_age_hours))"
  by (auto simp add: load_from_cache_def Let_def
      split: option.splits cache_file.splits if_splits)

text \<open>An entry with a bound of five minutes, at the age of 301 and of 300 seconds.\<close>

theorem cache_lookup_never_stale_witness:
  "fst (load_from_cache (cached_at 0 301000000) ''k'' (1 / 12)) = None
   \<and> files (snd (load_from_cache (cached_at 0 301000000) ''k'' (1 / 12))) (cache_path ''k'')
       = None
   \<and> fst (load_from_cache (cached_at 0 300000000) ''k'' (1 / 12)) = Some [''row'']"
proof -
  have a: "files (cached_at 0 301000000) (cache_path ''k'') = Some (Pickled [''row''] 0)
      \<and> 1 / 12 < age_hours (now (cached_at 0 301000000)) 0"
    by (simp add: cached_at_def new_manager_def age_hours_def)
  have b: "fst (load_from_cache (cached_at 0 300000000) ''k'' (1 / 12)) = Some [''row'']"
    by (simp add: load_from_cache_def cached_at_def new_manager_def age_hours_def)
  from a b
    cache_lookup_never_stale
      [of "cached_at 0 301000000" "''k''" "[''row'']" 0 "1 / 12" "[''row'']"]
    cache_lookup_never_stale
      [of "cached_at 0 300000000" "''k''" "[''row'']" 0 "1 / 12" "[''row'']"]
  show ?thesis by simp
qed

text \<open>
  Claim C8, on a failing input. The steps of the repository's test
  \<^verbatim>\<open>test_clear_cache\<close>: a manager fetches historical data (a miss), then clears its
  cache. The cache directory is empty afterwards, and the statistics still report the
  miss.
\<close>

theorem clear_cache_keeps_counters:
  "stat_cache_misses
     (get_cache_stats (clear_cache (snd (get_historical_data
        (new_manager None (Some feed_up)) [''SPY''] (jan 2) (jan 5) ''1Day'' None)))) = 1
   \<and> files (clear_cache (snd (get_historical_data
        (new_manager None (Some feed_up)) [''SPY''] (jan 2) (jan 5) ''1Day'' None)))
       = Map.empty"
  by (simp add: get_historical_data.simps new_manager_def load_from_cache_def Let_def
      select_historical_def auto_select_historical_def sources_get_def fetch_historical_def
      feed_up_def elapse_def save_to_cache_def clear_cache_def get_cache_stats_def)


text \<open>
  A key with a path separator is never stored: the symbol \<^verbatim>\<open>BRK/B\<close> gives the key
  \<^verbatim>\<open>hist_BRK/B_2024-01-02_2024-01-05_1Day\<close>.
\<close>

lemma save_to_cache_path_separator:
  "save_to_cache m (hist_key [''BRK/B''] (jan 2) (jan 5) ''1Day'') data = m"
  by (simp add: save_to_cache_def hist_key_def)


section \<open>Requests whose sources all fail\<close>


lemma load_from_cache_keeps [simp]:
  "sources (snd (load_from_cache m key a)) = sources m"
  "enable_caching (snd (load_from_cache m key a)) = enable_caching m"
  "now (snd (load_from_cache m key a)) = now m"
  by (auto simp add: load_from_cache_def Let_def split: option.splits cache_file.splits)

lemma load_from_cache_files:
  "files (snd (load_from_cache m key a))
     = (if stale m key a then (files m)(cache_path key := None) else files m)"
  by (auto simp add: load_from_cache_def stale_def Let_def split: option.splits cache_file.splits)

lemma load_from_cache_miss_leaves:
  "fst (load_from_cache m key a) = None \<Longrightarrow>
     files (snd (load_from_cache m key a)) (cache_path key) = None
     \<or> files (snd (load_from_cache m key a)) (cache_path key) = Some Unreadable"
  by (auto simp add: load_from_cache_def Let_def split: option.splits cache_file.splits if_splits)

lemma load_from_cache_miss_again:
  "files m (cache_path key) = None \<or> files m (cache_path key) = Some Unreadable \<Longrightarrow>
     load_from_cache m key a = (None, m\<lparr>cache_ops := cache_ops m @ [Lookup key]\<rparr>)"
  by (auto simp add: load_from_cache_def Let_def)

lemma fetch_historical_sources:
  "sources m' = sources m \<Longrightarrow>
     fetch_historical m' name symbols start end timeframe
       = fetch_historical m name symbols start end timeframe"
  by (simp add: fetch_historical_def sources_get_def)

lemma sources_get_sources:
  "sources m' = sources m \<Longrightarrow> sources_get m' name = sources_get m name"
  by (simp add: sources_get_def)

lemma auto_select_historical_sources:
  "sources m' = sources m \<Longrightarrow> auto_select_historical m' = auto_select_historical m"
  by (simp add: auto_select_historical_def sources_get_def)

lemma select_historical_sources:
  "sources m' = sources m \<Longrightarrow> select_historical m' source = select_historical m source"
  using auto_select_historical_sources [of m' m]
  by (cases source) (simp_all add: select_historical_def)

lemma failedE: "failed r \<Longrightarrow> \<exists>d. r = Raised d"
  by (cases r) (simp_all add: failed_def)


text \<open>One level of \<open>get_historical_data\<close> when the lookup misses and the fetch raises.\<close>

lemma get_historical_data_fetch_raises:
  assumes miss: "enable_caching m \<longrightarrow>
                   fst (load_from_cache m (hist_key symbols start end timeframe) 24) = None"
    and sel: "select_historical m source = Some selected"
    and d: "fetch_historical m selected symbols start end timeframe = Raised d"
    and m3: "m3 = elapse d
               ((snd (if enable_caching m
                      then load_from_cache m (hist_key symbols start end timeframe) 24
                      else (None, m)))
                \<lparr>cache_misses :=
                    cache_misses (snd (if enable_caching m
                      then load_from_cache m (hist_key symbols start end timeframe) 24
                      else (None, m))) + 1\<rparr>)"
  shows "get_historical_data m symbols start end timeframe source
      = (if selected = ''polygon'' \<and> sources_get m ''yahoo'' \<noteq> None
         then get_historical_data m3 symbols start end timeframe (Some ''yahoo'')
         else (Inr [], m3))"
proof (cases "enable_caching m")
  case True
  let ?m1 = "snd (load_from_cache m (hist_key symbols start end timeframe) 24)"
  let ?m2 = "?m1\<lparr>cache_misses := cache_misses ?m1 + 1\<rparr>"
  have src: "sources ?m2 = sources m" "sources (elapse d ?m2) = sources m"
    by (simp_all add: elapse_def)
  have a: "select_historical ?m2 source = Some selected"
    using sel select_historical_sources [OF src(1)] by simp
  have b: "fetch_historical ?m2 selected symbols start end timeframe = Raised d"
    using d fetch_historical_sources [OF src(1)] by simp
  have c: "sources_get (elapse d ?m2) ''yahoo'' = sources_get m ''yahoo''"
    using sources_get_sources [OF src(2)] by simp
  from True miss have f: "fst (load_from_cache m (hist_key symbols start end timeframe) 24) = None"
    by simp
  show ?thesis
    apply (subst get_historical_data.simps)
    apply (simp only: Let_def True if_True f option.case a b outcome.case c m3)
    done
next
  case False
  let ?m2 = "m\<lparr>cache_misses := cache_misses m + 1\<rparr>"
  have src: "sources ?m2 = sources m" "sources (elapse d ?m2) = sources m"
    by (simp_all add: elapse_def)
  have a: "select_historical ?m2 source = Some selected"
    using sel select_historical_sources [OF src(1)] by simp
  have b: "fetch_historical ?m2 selected symbols start end timeframe = Raised d"
    using d fetch_historical_sources [OF src(1)] by simp
  have c: "sources_get (elapse d ?m2) ''yahoo'' = sources_get m ''yahoo''"
    using sources_get_sources [OF src(2)] by simp
  show ?thesis
    apply (subst get_historical_data.simps)
    apply (simp only: Let_def False if_False fst_conv snd_conv option.case a b outcome.case c m3)
    done
qed


lemma load_from_cache_hit_not_stale:
  "fst (load_from_cache m key a) = Some data \<Longrightarrow> \<not> stale m key a"
  by (auto simp add: load_from_cache_def stale_def Let_def
      split: option.splits cache_file.splits if_splits)

lemma not_stale_unreadable:
  "files m (cache_path key) = None \<or> files m (cache_path key) = Some Unreadable \<Longrightarrow>
     \<not> stale m key a"
  by (auto simp add: stale_def)

lemma after_miss_keeps [simp]:
  "sources (after_miss m key) = sources m"
  "enable_caching (after_miss m key) = enable_caching m"
  by (simp_all add: after_miss_def)

lemma after_miss_files:
  "files (after_miss m key)
     = (if enable_caching m \<and> stale m key 24 then (files m)(cache_path key := None)
        else files m)"
  by (simp add: after_miss_def load_from_cache_files)

lemma elapse_keeps [simp]:
  "sources (elapse d m) = sources m"
  "enable_caching (elapse d m) = enable_caching m"
  "files (elapse d m) = files m"
  by (simp_all add: elapse_def)

lemma get_historical_data_all_fail:
  assumes miss: "enable_caching m \<longrightarrow>
                   fst (load_from_cache m (hist_key symbols start end timeframe) 24) = None"
    and sel: "select_historical m source = Some selected"
    and f1: "failed (fetch_historical m selected symbols start end timeframe)"
    and f2: "selected = ''polygon'' \<longrightarrow>
               failed (fetch_historical m ''yahoo'' symbols start end timeframe)"
  shows "fst (get_historical_data m symbols start end timeframe source) = Inr []
       \<and> files (snd (get_historical_data m symbols start end timeframe source))
           = (if enable_caching m \<and> stale m (hist_key symbols start end timeframe) 24
              then (files m)(cache_path (hist_key symbols start end timeframe) := None)
              else files m)"
proof -
  define key where "key = hist_key symbols start end timeframe"
  from failedE [OF f1] obtain d
    where d: "fetch_historical m selected symbols start end timeframe = Raised d" ..
  define m3 where "m3 = elapse d (after_miss m key)"
  have m3: "m3 = elapse d
               ((snd (if enable_caching m
                      then load_from_cache m (hist_key symbols start end timeframe) 24
                      else (None, m)))
                \<lparr>cache_misses :=
                    cache_misses (snd (if enable_caching m
                      then load_from_cache m (hist_key symbols start end timeframe) 24
                      else (None, m))) + 1\<rparr>)"
    by (simp add: m3_def after_miss_def key_def)
  note outer = get_historical_data_fetch_raises [OF miss sel d m3]
  have files_m3: "files m3
      = (if enable_caching m \<and> stale m key 24 then (files m)(cache_path key := None)
         else files m)"
    by (simp add: m3_def after_miss_files)
  show ?thesis
  proof (cases "selected = ''polygon'' \<and> sources_get m ''yahoo'' \<noteq> None")
    case False
    have "get_historical_data m symbols start end timeframe source = (Inr [], m3)"
      by (subst outer) (rule if_not_P [OF False])
    with files_m3 show ?thesis by (simp add: key_def)
  next
    case True
    have rec: "get_historical_data m symbols start end timeframe source
        = get_historical_data m3 symbols start end timeframe (Some ''yahoo'')"
      by (subst outer) (rule if_P [OF True])
    have src3: "sources m3 = sources m" and en3: "enable_caching m3 = enable_caching m"
      by (simp_all add: m3_def)
    have gone: "enable_caching m \<longrightarrow>
        (files m3 (cache_path key) = None \<or> files m3 (cache_path key) = Some Unreadable)"
    proof
      assume en: "enable_caching m"
      with miss have "fst (load_from_cache m key 24) = None" by (simp add: key_def)
      from load_from_cache_miss_leaves [OF this] en show
        "files m3 (cache_path key) = None \<or> files m3 (cache_path key) = Some Unreadable"
        by (simp add: m3_def after_miss_def)
    qed
    have miss3: "enable_caching m3 \<longrightarrow>
        fst (load_from_cache m3 (hist_key symbols start end timeframe) 24) = None"
      using gone en3 load_from_cache_miss_again [of m3 key 24] by (auto simp add: key_def)
    have sel3: "select_historical m3 (Some ''yahoo'') = Some ''yahoo''"
      by (simp add: select_historical_def)
    from True f2 have "failed (fetch_historical m ''yahoo'' symbols start end timeframe)"
      by simp
    from failedE [OF this] obtain d' where
      "fetch_historical m ''yahoo'' symbols start end timeframe = Raised d'" ..
    then have d3: "fetch_historical m3 ''yahoo'' symbols start end timeframe = Raised d'"
      using fetch_historical_sources [OF src3] by simp
    define m5 where "m5 = elapse d' (after_miss m3 key)"
    have m5: "m5 = elapse d'
               ((snd (if enable_caching m3
                      then load_from_cache m3 (hist_key symbols start end timeframe) 24
                      else (None, m3)))
                \<lparr>cache_misses :=
                    cache_misses (snd (if enable_caching m3
                      then load_from_cache m3 (hist_key symbols start end timeframe) 24
                      else (None, m3))) + 1\<rparr>)"
      by (simp add: m5_def after_miss_def key_def)
    have inner: "get_historical_data m3 symbols start end timeframe (Some ''yahoo'')
        = (Inr [], m5)"
      using get_historical_data_fetch_raises [OF miss3 sel3 d3 m5] by simp
    have "\<not> (enable_caching m3 \<and> stale m3 key 24)"
      using gone en3 not_stale_unreadable [of m3 key 24] by auto
    then have "files m5 = files m3"
      by (auto simp add: m5_def after_miss_files)
    with rec inner files_m3 show ?thesis by (simp add: key_def)
  qed
qed


lemma get_historical_data_hit:
  assumes "enable_caching m"
    and "fst (load_from_cache m (hist_key symbols start end timeframe) 24) = Some data"
  shows "get_historical_data m symbols start end timeframe source
      = (Inr data,
         (snd (load_from_cache m (hist_key symbols start end timeframe) 24))
           \<lparr>cache_hits :=
              cache_hits (snd (load_from_cache m (hist_key symbols start end timeframe) 24))
                + 1\<rparr>)"
  apply (subst get_historical_data.simps)
  apply (simp only: Let_def assms if_True option.case)
  done

lemma cache_path_inject [simp]: "cache_path k = cache_path key \<longleftrightarrow> k = key"
  by (simp add: cache_path_def)

text \<open>A cache key tells the kind of request that uses it, and so the bound of its lookups.\<close>

lemma cache_keys_by_kind:
  "hist_key symbols start end timeframe \<noteq> options_key float_str u e s ot"
  "hist_key symbols start end timeframe \<noteq> crypto_key f t start' end' timeframe'"
  "options_key float_str u e s ot \<noteq> crypto_key f t start' end' timeframe'"
  by (simp_all add: hist_key_def options_key_def crypto_key_def)

lemma age_hours_mono: "t \<le> t' \<Longrightarrow> age_hours t ts \<le> age_hours t' ts"
  by (simp add: age_hours_def divide_right_mono)

lemma load_from_cache_fst:
  "fst (load_from_cache m k a)
     = (case files m (cache_path k) of
          Some (Pickled data ts) \<Rightarrow> if age_hours (now m) ts \<le> a then Some data else None
        | _ \<Rightarrow> None)"
  by (simp add: load_from_cache_def Let_def split: option.splits cache_file.splits)

lemma evicted_cache_as_before:
  assumes eq: "files m' = (if c \<and> stale m key bound then (files m)(cache_path key := None)
                       else files m)"
  shows "cache_as_before m m' key bound p t k a"
proof (cases "c \<and> stale m key bound")
  case False
  with eq have "files m' = files m" by simp
  then show ?thesis
    by (simp add: cache_as_before_def load_from_cache_fst split: option.splits cache_file.splits)
next
  case True
  with eq have f: "files m' = (files m)(cache_path key := None)" by simp
  from True obtain data ts where old: "files m (cache_path key) = Some (Pickled data ts)"
    and age: "bound < age_hours (now m) ts"
    by (auto simp add: stale_def split: option.splits cache_file.splits)
  have "fst (load_from_cache (m'\<lparr>now := t\<rparr>) k a) = fst (load_from_cache (m\<lparr>now := t\<rparr>) k a)"
    if t: "now m \<le> t" and a: "k = key \<longrightarrow> a \<le> bound"
  proof (cases "k = key")
    case False
    with f show ?thesis
      by (simp add: load_from_cache_fst split: option.splits cache_file.splits)
  next
    case same: True
    with a age age_hours_mono [OF t, of ts] have "\<not> age_hours t ts \<le> a" by simp
    with same f old show ?thesis by (simp add: load_from_cache_fst)
  qed
  with f True show ?thesis by (auto simp add: cache_as_before_def)
qed

lemma fetch_options_sources:
  "sources m' = sources m \<Longrightarrow> fetch_options m' u e s ot = fetch_options m u e s ot"
  by (simp add: fetch_options_def sources_get_def)

lemma fetch_crypto_sources:
  "sources m' = sources m \<Longrightarrow> fetch_crypto m' f t s e tf = fetch_crypto m f t s e tf"
  by (simp add: fetch_crypto_def sources_get_def)

lemma get_options_chain_fail_files:
  assumes "failed (fetch_options m u e s ot)"
  shows "files (snd (get_options_chain float_str m u e s ot))
     = (if (enable_caching m \<and> sources_get m ''polygon'' \<noteq> None)
            \<and> stale m (options_key float_str u e s ot) (83 / 1000)
        then (files m)(cache_path (options_key float_str u e s ot) := None) else files m)"
proof -
  from failedE [OF assms] obtain d where d: "fetch_options m u e s ot = Raised d" ..
  have d': "fetch_options m' u e s ot = Raised d" if "sources m' = sources m" for m'
    using d fetch_options_sources [OF that] by simp
  show ?thesis
  proof (cases "enable_caching m \<and> sources_get m ''polygon'' \<noteq> None")
    case False
    then show ?thesis
      by (auto simp add: get_options_chain_def Let_def d' elapse_def)
  next
    case True
    show ?thesis
    proof (cases "fst (load_from_cache m (options_key float_str u e s ot) (83 / 1000))")
      case None
      with True show ?thesis
        by (auto simp add: get_options_chain_def Let_def d' load_from_cache_files)
    next
      case (Some data)
      from load_from_cache_hit_not_stale [OF this] Some True show ?thesis
        by (auto simp add: get_options_chain_def Let_def load_from_cache_files)
    qed
  qed
qed

lemma get_crypto_data_fail_files:
  assumes "failed (fetch_crypto m f t s e tf)"
  shows "files (snd (get_crypto_data m f t s e tf))
     = (if (enable_caching m \<and> sources_get m ''polygon'' \<noteq> None)
            \<and> stale m (crypto_key f t s e tf) 1
        then (files m)(cache_path (crypto_key f t s e tf) := None) else files m)"
proof -
  from failedE [OF assms] obtain d where d: "fetch_crypto m f t s e tf = Raised d" ..
  have d': "fetch_crypto m' f t s e tf = Raised d" if "sources m' = sources m" for m'
    using d fetch_crypto_sources [OF that] by simp
  show ?thesis
  proof (cases "enable_caching m \<and> sources_get m ''polygon'' \<noteq> None")
    case False
    then show ?thesis
      by (auto simp add: get_crypto_data_def Let_def d' elapse_def)
  next
    case True
    show ?thesis
    proof (cases "fst (load_from_cache m (crypto_key f t s e tf) 1)")
      case None
      with True show ?thesis
        by (auto simp add: get_crypto_data_def Let_def d' load_from_cache_files)
    next
      case (Some data)
      from load_from_cache_hit_not_stale [OF this] Some True show ?thesis
        by (auto simp add: get_crypto_data_def Let_def load_from_cache_files)
    qed
  qed
qed

lemma get_latest_prices_files:
  "files (snd (get_latest_prices m symbols source)) = files m"
proof (induction m symbols source rule: get_latest_prices.induct)
  case (1 m symbols source)
  show ?case
  proof (cases "select_latest m source")
    case None
    then show ?thesis by (simp add: get_latest_prices.simps [of m])
  next
    case (Some selected)
    show ?thesis
    proof (cases "fetch_latest m selected symbols")
      case (Returned d prices)
      with Some show ?thesis by (simp add: get_latest_prices.simps [of m])
    next
      case (Raised d)
      from 1 [OF Some Raised refl] Some Raised show ?thesis
        by (simp add: get_latest_prices.simps [of m] Let_def)
    qed
  qed
qed

lemma get_news_files: "files (snd (get_news m symbol limit)) = files m"
  by (simp add: get_news_def split: option.splits outcome.splits)

lemma get_historical_data_no_source:
  assumes miss: "enable_caching m \<longrightarrow>
                   fst (load_from_cache m (hist_key symbols start end timeframe) 24) = None"
    and sel: "select_historical m source = None"
  shows "get_historical_data m symbols start end timeframe source
      = (Inl (RuntimeError ''No data sources available''),
         after_miss m (hist_key symbols start end timeframe))"
proof -
  have src: "sources (after_miss m (hist_key symbols start end timeframe)) = sources m"
    by simp
  have a: "select_historical (after_miss m (hist_key symbols start end timeframe)) source = None"
    using sel select_historical_sources [OF src] by simp
  show ?thesis
  proof (cases "enable_caching m")
    case True
    with miss have f: "fst (load_from_cache m (hist_key symbols start end timeframe) 24) = None"
      by simp
    from a True have a': "select_historical
        ((snd (load_from_cache m (hist_key symbols start end timeframe) 24))
           \<lparr>cache_misses :=
              cache_misses (snd (load_from_cache m (hist_key symbols start end timeframe) 24))
                + 1\<rparr>) source = None"
      by (simp add: after_miss_def)
    show ?thesis
      apply (subst get_historical_data.simps)
      apply (simp only: Let_def True if_True f option.case a' after_miss_def)
      done
  next
    case False
    from a False have a': "select_historical (m\<lparr>cache_misses := cache_misses m + 1\<rparr>) source
        = None"
      by (simp add: after_miss_def)
    show ?thesis
      apply (subst get_historical_data.simps)
      apply (simp only: Let_def False if_False fst_conv snd_conv option.case a' after_miss_def)
      done
  qed
qed

lemma select_historical_None:
  "select_historical m source = None \<longleftrightarrow>
     (source = None \<or> source = Some []) \<and> sources_get m ''polygon'' = None
       \<and> sources_get m ''yahoo'' = None"
  by (cases source) (auto simp add: select_historical_def auto_select_historical_def)

lemma get_historical_data_fail_files:
  assumes "select_historical m source = Some selected"
    and "failed (fetch_historical m selected symbols start end timeframe)"
    and "selected = ''polygon'' \<longrightarrow>
           failed (fetch_historical m ''yahoo'' symbols start end timeframe)"
  shows "files (snd (get_historical_data m symbols start end timeframe source))
           = (if enable_caching m \<and> stale m (hist_key symbols start end timeframe) 24
              then (files m)(cache_path (hist_key symbols start end timeframe) := None)
              else files m)"
proof (cases "enable_caching m \<longrightarrow>
                fst (load_from_cache m (hist_key symbols start end timeframe) 24) = None")
  case True
  from get_historical_data_all_fail [OF True assms] show ?thesis by simp
next
  case False
  then obtain data where en: "enable_caching m"
    and hit: "fst (load_from_cache m (hist_key symbols start end timeframe) 24) = Some data"
    by auto
  from get_historical_data_hit [OF en hit, of source] load_from_cache_hit_not_stale [OF hit]
  show ?thesis
    by (simp add: load_from_cache_files)
qed

lemma get_historical_data_no_source_files:
  assumes "select_historical m source = None"
  shows "files (snd (get_historical_data m symbols start end timeframe source))
           = (if enable_caching m \<and> stale m (hist_key symbols start end timeframe) 24
              then (files m)(cache_path (hist_key symbols start end timeframe) := None)
              else files m)"
proof (cases "enable_caching m \<longrightarrow>
                fst (load_from_cache m (hist_key symbols start end timeframe) 24) = None")
  case True
  from get_historical_data_no_source [OF True assms] show ?thesis
    by (simp add: after_miss_files)
next
  case False
  then obtain data where en: "enable_caching m"
    and hit: "fst (load_from_cache m (hist_key symbols start end timeframe) 24) = Some data"
    by auto
  from get_historical_data_hit [OF en hit, of source] load_from_cache_hit_not_stale [OF hit]
  show ?thesis
    by (simp add: load_from_cache_files)
qed

text \<open>
  Claim C3, as amended. A historical-data request that misses the cache and whose
  candidate sources all fail (the selected source raises, and when it is Polygon, Yahoo
  raises too or is not available) returns an empty frame as its ordinary result: the
  exceptions are caught, and no error reaches the caller. A request with no candidate at
  all raises \<^verbatim>\<open>RuntimeError('No data sources available')\<close>; that is the case exactly
  when no source is forced and neither Polygon nor Yahoo is available, whatever the state
  of Alpaca.
\<close>

theorem historical_failure_returns_empty_frame:
  assumes "enable_caching m \<longrightarrow>
             fst (load_from_cache m (hist_key symbols start end timeframe) 24) = None"
  shows "(select_historical m source = Some selected
            \<and> failed (fetch_historical m selected symbols start end timeframe)
            \<and> (selected = ''polygon'' \<longrightarrow>
                 failed (fetch_historical m ''yahoo'' symbols start end timeframe))
          \<longrightarrow> fst (get_historical_data m symbols start end timeframe source) = Inr [])
       \<and> (select_historical m source = None
          \<longrightarrow> fst (get_historical_data m symbols start end timeframe source)
                = Inl (RuntimeError ''No data sources available''))
       \<and> (select_historical m source = None
          \<longleftrightarrow> (source = None \<or> source = Some [])
                \<and> sources_get m ''polygon'' = None \<and> sources_get m ''yahoo'' = None)"
proof (intro conjI impI)
  assume "select_historical m source = Some selected
            \<and> failed (fetch_historical m selected symbols start end timeframe)
            \<and> (selected = ''polygon'' \<longrightarrow>
                 failed (fetch_historical m ''yahoo'' symbols start end timeframe))"
  then show "fst (get_historical_data m symbols start end timeframe source) = Inr []"
    using get_historical_data_all_fail [OF assms, of source selected] by simp
next
  assume "select_historical m source = None"
  from get_historical_data_no_source [OF assms this]
  show "fst (get_historical_data m symbols start end timeframe source)
          = Inl (RuntimeError ''No data sources available'')"
    by simp
next
  show "select_historical m source = None
          \<longleftrightarrow> (source = None \<or> source = Some [])
                \<and> sources_get m ''polygon'' = None \<and> sources_get m ''yahoo'' = None"
    by (rule select_historical_None)
qed

text \<open>
  Only Yahoo is available, and it raises: an empty frame. Only Alpaca is available: no
  candidate, and \<^verbatim>\<open>RuntimeError\<close>.
\<close>

theorem historical_failure_returns_empty_frame_witness:
  "fst (get_historical_data (new_manager None (Some feed_down)) [''SPY''] (jan 2) (jan 5)
          ''1Day'' None) = Inr []
   \<and> fst (get_historical_data
            (init_manager (Some ''key'') (Some ''secret'') None True alpaca_only)
            [''SPY''] (jan 2) (jan 5) ''1Day'' None)
       = Inl (RuntimeError ''No data sources available'')"
proof -
  let ?yahoo = "new_manager None (Some feed_down)"
  let ?alpaca = "init_manager (Some ''key'') (Some ''secret'') None True alpaca_only"
  have miss: "enable_caching ?yahoo \<longrightarrow>
      fst (load_from_cache ?yahoo (hist_key [''SPY''] (jan 2) (jan 5) ''1Day'') 24) = None"
    by (simp add: new_manager_def load_from_cache_def)
  have sel: "select_historical ?yahoo None = Some ''yahoo''"
    by (simp add: select_historical_def auto_select_historical_def sources_get_def
        new_manager_def)
  have down: "failed (fetch_historical ?yahoo ''yahoo'' [''SPY''] (jan 2) (jan 5) ''1Day'')"
    by (simp add: failed_def fetch_historical_def sources_get_def new_manager_def
        feed_down_def)
  have miss': "enable_caching ?alpaca \<longrightarrow>
      fst (load_from_cache ?alpaca (hist_key [''SPY''] (jan 2) (jan 5) ''1Day'') 24) = None"
    by (simp add: init_manager_def alpaca_only_def load_from_cache_def)
  have sel': "select_historical ?alpaca None = None"
    by (simp add: select_historical_def auto_select_historical_def sources_get_def
        init_manager_def alpaca_only_def truthy_def start_source_def)
  from historical_failure_returns_empty_frame
         [OF miss, of None "''yahoo''"] sel down
       historical_failure_returns_empty_frame
         [OF miss', of None "''yahoo''"] sel'
  show ?thesis by simp
qed

text \<open>
  Claim C3 as stated fails: with Polygon and Yahoo both configured and both raising,
  the call returns the empty frame, not an error that lists the failures.
\<close>

theorem all_sources_down_returns_empty_frame:
  "fst (get_historical_data (new_manager (Some feed_down) (Some feed_down)) [''AAPL'']
          (jan 2) (jan 5) ''1Day'' None) = Inr []"
  by (simp add: get_historical_data.simps new_manager_def load_from_cache_def Let_def
      select_historical_def auto_select_historical_def sources_get_def fetch_historical_def
      feed_down_def elapse_def)

text \<open>
  Claim C9. A data request whose upstream fetch fails writes no cache entry, and a later
  lookup sees in the cache what it would have seen without the failed call
  (\<open>cache_as_before\<close>: the only change that the call can make to the cache directory is
  the removal, by the lookup that precedes the fetch, of the entry of its own key that had
  expired already). This holds for a historical-data request whose candidate sources all
  raise or that has no source to select, for an options-chain request and for a
  crypto-data request whose fetch from Polygon raises; requests for the latest prices and
  for news never touch the cache.
\<close>

theorem failed_fetch_writes_no_entry:
  "(select_historical m source = Some selected
      \<and> failed (fetch_historical m selected symbols start end timeframe)
      \<and> (selected = ''polygon'' \<longrightarrow>
           failed (fetch_historical m ''yahoo'' symbols start end timeframe))
    \<longrightarrow> cache_as_before m (snd (get_historical_data m symbols start end timeframe source))
          (hist_key symbols start end timeframe) 24 p t k a)
   \<and> (select_historical m source = None
    \<longrightarrow> cache_as_before m (snd (get_historical_data m symbols start end timeframe source))
          (hist_key symbols start end timeframe) 24 p t k a)
   \<and> (failed (fetch_options m underlying_symbol expiration_date strike_price option_type)
    \<longrightarrow> cache_as_before m
          (snd (get_options_chain float_str m underlying_symbol expiration_date strike_price
                  option_type))
          (options_key float_str underlying_symbol expiration_date strike_price option_type)
          (83 / 1000) p t k a)
   \<and> (failed (fetch_crypto m from_currency to_currency start end timeframe)
    \<longrightarrow> cache_as_before m
          (snd (get_crypto_data m from_currency to_currency start end timeframe))
          (crypto_key from_currency to_currency start end timeframe) 1 p t k a)
   \<and> files (snd (get_latest_prices m symbols source)) = files m
   \<and> files (snd (get_news m symbol limit)) = files m"
proof (intro conjI impI)
  assume "select_historical m source = Some selected
      \<and> failed (fetch_historical m selected symbols start end timeframe)
      \<and> (selected = ''polygon'' \<longrightarrow>
           failed (fetch_historical m ''yahoo'' symbols start end timeframe))"
  then have "files (snd (get_historical_data m symbols start end timeframe source))
           = (if enable_caching m \<and> stale m (hist_key symbols start end timeframe) 24
              then (files m)(cache_path (hist_key symbols start end timeframe) := None)
              else files m)"
    using get_historical_data_fail_files [of m source selected symbols start "end" timeframe]
    by simp
  then show "cache_as_before m (snd (get_historical_data m symbols start end timeframe source))
          (hist_key symbols start end timeframe) 24 p t k a"
    by (rule evicted_cache_as_before)
next
  assume "select_historical m source = None"
  from get_historical_data_no_source_files [OF this]
  show "cache_as_before m (snd (get_historical_data m symbols start end timeframe source))
          (hist_key symbols start end timeframe) 24 p t k a"
    by (rule evicted_cache_as_before)
next
  assume "failed (fetch_options m underlying_symbol expiration_date strike_price option_type)"
  from get_options_chain_fail_files [OF this]
  show "cache_as_before m
          (snd (get_options_chain float_str m underlying_symbol expiration_date strike_price
                  option_type))
          (options_key float_str underlying_symbol expiration_date strike_price option_type)
          (83 / 1000) p t k a"
    by (rule evicted_cache_as_before)
next
  assume "failed (fetch_crypto m from_currency to_currency start end timeframe)"
  from get_crypto_data_fail_files [OF this]
  show "cache_as_before m
          (snd (get_crypto_data m from_currency to_currency start end timeframe))
          (crypto_key from_currency to_currency start end timeframe) 1 p t k a"
    by (rule evicted_cache_as_before)
next
  show "files (snd (get_latest_prices m symbols source)) = files m"
    by (rule get_latest_prices_files)
next
  show "files (snd (get_news m symbol limit)) = files m"
    by (rule get_news_files)
qed

text \<open>
  The cache holds an entry of 25 hours for AAPL and both sources are down. The failed
  historical-data request removes the expired entry, and a lookup one microsecond later
  returns from the cache after the call what it returns from the cache before it. The
  failed requests for an options chain and for crypto data leave the file as it is.
\<close>

theorem failed_fetch_writes_no_entry_witness:
  "files (snd (get_historical_data stale_manager [''AAPL''] (jan 2) (jan 5) ''1Day'' None))
     (cache_path (hist_key [''AAPL''] (jan 2) (jan 5) ''1Day''))
     = None
   \<and> fst (load_from_cache
          ((snd (get_historical_data stale_manager [''AAPL''] (jan 2) (jan 5) ''1Day'' None))
             \<lparr>now := 90000000001\<rparr>)
          (hist_key [''AAPL''] (jan 2) (jan 5) ''1Day'') 24)
     = fst (load_from_cache (stale_manager\<lparr>now := 90000000001\<rparr>)
              (hist_key [''AAPL''] (jan 2) (jan 5) ''1Day'') 24)
   \<and> files (snd (get_options_chain (\<lambda>x. ''150.0'') stale_manager ''AAPL'' None None None))
       (cache_path (hist_key [''AAPL''] (jan 2) (jan 5) ''1Day''))
     = files stale_manager (cache_path (hist_key [''AAPL''] (jan 2) (jan 5) ''1Day''))
   \<and> files (snd (get_crypto_data stale_manager ''BTC'' ''USD'' (jan 2) (jan 5) ''1Day''))
       (cache_path (hist_key [''AAPL''] (jan 2) (jan 5) ''1Day''))
     = files stale_manager (cache_path (hist_key [''AAPL''] (jan 2) (jan 5) ''1Day''))"
proof -
  have sel: "select_historical stale_manager None = Some ''polygon''"
    by (simp add: select_historical_def auto_select_historical_def sources_get_def
        stale_manager_def new_manager_def)
  have down: "failed (fetch_historical stale_manager ''polygon'' [''AAPL''] (jan 2) (jan 5)
                        ''1Day'')"
    "failed (fetch_historical stale_manager ''yahoo'' [''AAPL''] (jan 2) (jan 5) ''1Day'')"
    "failed (fetch_options stale_manager ''AAPL'' None None None)"
    "failed (fetch_crypto stale_manager ''BTC'' ''USD'' (jan 2) (jan 5) ''1Day'')"
    by (simp_all add: failed_def fetch_historical_def fetch_options_def fetch_crypto_def
        sources_get_def stale_manager_def new_manager_def feed_down_def)
  have t: "now stale_manager \<le> 90000000001"
    by (simp add: stale_manager_def)
  have evicted:
    "files (snd (get_historical_data stale_manager [''AAPL''] (jan 2) (jan 5) ''1Day'' None))
       (cache_path (hist_key [''AAPL''] (jan 2) (jan 5) ''1Day''))
       = None"
    by (simp add: get_historical_data.simps stale_manager_def new_manager_def
        load_from_cache_def Let_def age_hours_def
        select_historical_def auto_select_historical_def sources_get_def fetch_historical_def
        feed_down_def elapse_def)
  have other: "cache_path (hist_key [''AAPL''] (jan 2) (jan 5) ''1Day'')
      \<noteq> cache_path (options_key (\<lambda>x. ''150.0'') ''AAPL'' None None None)"
    "cache_path (hist_key [''AAPL''] (jan 2) (jan 5) ''1Day'')
      \<noteq> cache_path (crypto_key ''BTC'' ''USD'' (jan 2) (jan 5) ''1Day'')"
    by (simp_all add: hist_key_def options_key_def crypto_key_def)
  from failed_fetch_writes_no_entry
         [of stale_manager None "''polygon''" "[''AAPL'']" "jan 2" "jan 5" "''1Day''"
            "cache_path (hist_key [''AAPL''] (jan 2) (jan 5) ''1Day'')" 90000000001
            "hist_key [''AAPL''] (jan 2) (jan 5) ''1Day''" 24
            "''AAPL''" None None None "\<lambda>x. ''150.0''" "''BTC''" "''USD''"]
       sel down t other evicted
  show ?thesis
    by (simp add: cache_as_before_def)
qed


section \<open>Options chains\<close>

text \<open>
  Polygon is missing from the sources of a manager exactly when no key was given or the
  constructor of the feed raised; then \<^verbatim>\<open>get_options_chain\<close> raises at once and leaves
  the state as it was. A feed whose \<^verbatim>\<open>connect()\<close> returned \<^verbatim>\<open>False\<close> stays among the
  sources.
\<close>

lemma get_options_chain_without_polygon:
  assumes "sources_get m ''polygon'' = None"
  shows "get_options_chain float_str m underlying_symbol expiration_date strike_price
           option_type
           = (Inl (RuntimeError ''Polygon is required for options data''), m)"
  using assms by (simp add: get_options_chain_def)

lemma init_manager_without_polygon:
  assumes "\<not> truthy polygon_key \<or> polygon_feed w = Import_error"
  shows "sources_get (init_manager alpaca_key alpaca_secret polygon_key caching w) ''polygon''
           = None"
  using assms by (auto simp add: init_manager_def sources_get_def start_source_def)

lemma init_manager_keeps_polygon:
  assumes "truthy polygon_key" and "polygon_feed w = Constructed feed"
  shows "sources_get (init_manager alpaca_key alpaca_secret polygon_key caching w) ''polygon''
           = Some (feed\<lparr>connected := polygon_connects w\<rparr>)"
  using assms by (simp add: init_manager_def sources_get_def start_source_def)

text \<open>
  With Polygon among the sources, connected or not, an options-chain request raises
  nothing, and it counts a hit or a miss.
\<close>

lemma get_options_chain_with_polygon:
  assumes "sources_get m ''polygon'' \<noteq> None"
  shows "\<exists>chain. fst (get_options_chain float_str m u e s ot) = Inr chain"
    and "cache_hits (snd (get_options_chain float_str m u e s ot))
           + cache_misses (snd (get_options_chain float_str m u e s ot))
         = cache_hits m + cache_misses m + 1"
  using assms
  by (auto simp add: get_options_chain_def Let_def load_from_cache_def elapse_def
      save_to_cache_def split: option.splits cache_file.splits outcome.splits)

text \<open>
  Claim C10, on a failing input. A manager is created with a Polygon key while the Polygon
  API rejects the key: the constructor of the feed succeeds, \<^verbatim>\<open>connect()\<close> returns
  \<^verbatim>\<open>False\<close>, and \<^verbatim>\<open>__init__\<close> keeps the feed, which is not connected, among the
  sources. An options-chain request then raises nothing: it looks the cache up, counts a
  miss and returns an empty frame.
\<close>

theorem options_chain_after_failed_connect:
  "map_option connected
     (sources_get (init_manager None None (Some ''key'') True polygon_unreachable) ''polygon'')
     = Some False
   \<and> map_prod id (\<lambda>m. (cache_hits m, cache_misses m, cache_ops m))
       (get_options_chain (\<lambda>x. ''150.0'')
          (init_manager None None (Some ''key'') True polygon_unreachable)
          ''AAPL'' None None None)
     = (Inr [], 0, 1, [Lookup ''options_AAPL_None_None_None''])"
  by (simp add: get_options_chain_def init_manager_def polygon_unreachable_def
      feed_unreachable_def truthy_def start_source_def sources_get_def load_from_cache_def
      Let_def options_key_def str_opt_def fetch_options_def elapse_def cache_path_def)

end
